theory Spec2Isabelle
  imports
    Complex_Main
    "HOL-Library.AList"
    "HOL-Library.Char_ord"
    "HOL-Library.List_Lexorder"
begin

section \<open>Bayesian belief vectors: the data model\<close>

text \<open>
  The repository holds two variants of one class \<open>Bayes\<close>, a subclass of Python's
  \<open>list\<close> that carries an extra attribute \<open>labels\<close>: \<^verbatim>\<open>src/bayes.py\<close> and
  \<^verbatim>\<open>src/bayesian/__init__.py\<close>. The two classes agree method by method except for
  \<open>update\<close> (and the display string); the second file adds the classifiers, the event
  table and the Gaussian model. Both files are Python 2 (\<open>print\<close> statements,
  \<open>__div__\<close>, \<open>map\<close> returning a list) and neither imports \<open>division\<close> from
  \<open>__future__\<close>.

  Every exception of the source is a value of the type \<open>error\<close>, and a function that
  can raise returns \<open>error + 'a\<close> with \<open>Inl\<close> for the exception.
\<close>

datatype error = TypeError | KeyError | ZeroDivisionError | ValueError | IndexError

definition bind :: "error + 'a \<Rightarrow> ('a \<Rightarrow> error + 'b) \<Rightarrow> error + 'b" where
  "bind m f = (case m of Inl e \<Rightarrow> Inl e | Inr x \<Rightarrow> f x)"

subsection \<open>Python 2 numbers\<close>

text \<open>
  The odds of a vector are Python numbers: an \<open>int\<close> or a \<open>float\<close>. A float is
  represented by the real number it stands for. Python compares an int with a float by
  value, so \<open>==\<close> and \<open>>\<close> on numbers are equality and order of \<open>val\<close>.
\<close>

datatype num = PyInt int | PyFloat real

fun val :: "num \<Rightarrow> real" where
  "val (PyInt i) = of_int i"
| "val (PyFloat x) = x"

text \<open>
  The result of a float operation is the exact result rounded to a float. The rounding
  is a parameter \<open>rnd\<close> of every function that computes with floats: \<open>exact\<close> rounds
  nothing (floats read as real numbers), \<open>double\<close> is the rounding of the IEEE 754
  double format, which is what the interpreter does.
\<close>

type_synonym rounding = "real \<Rightarrow> real"

definition exact :: rounding where
  "exact x = x"

text \<open>Round to the nearest integer, a tie to the even one.\<close>

definition rne :: "real \<Rightarrow> int" where
  "rne x =
     (let f = \<lfloor>x\<rfloor>; d = x - of_int f
      in if d < 1 / 2 then f else if 1 / 2 < d then f + 1 else if even f then f else f + 1)"

text \<open>
  The binary exponent of a positive number within the range of the double format: the
  greatest \<open>e \<le> 1023\<close> with \<open>2 powi e \<le> x\<close>, and \<open>- 1022\<close> (the exponent of the
  subnormal numbers) when there is none above it.
\<close>

function binade_from :: "int \<Rightarrow> real \<Rightarrow> int" where
  "binade_from e x = (if e \<le> - 1022 \<or> 2 powi e \<le> x then e else binade_from (e - 1) x)"
  by pat_completeness auto
termination
  by (relation "measure (\<lambda>(e, x). nat (e + 1022))") auto

declare binade_from.simps [simp del]

definition binade :: "real \<Rightarrow> int" where
  "binade x = binade_from 1023 x"

text \<open>
  Rounding to the nearest double (53 significant bits), ties to even. A result beyond
  the largest double, where the interpreter produces an infinity or raises
  \<open>OverflowError\<close>, is outside this description.
\<close>

definition double :: rounding where
  "double x =
     (if x = 0 then 0
      else (let q = 2 powi (binade \<bar>x\<bar> - 52) in of_int (rne (x / q)) * q))"

text \<open>\<open>float(n)\<close>.\<close>

definition to_float :: "rounding \<Rightarrow> num \<Rightarrow> real" where
  "to_float rnd n = (case n of PyInt i \<Rightarrow> rnd (of_int i) | PyFloat x \<Rightarrow> x)"

text \<open>
  \<open>a + b\<close>, \<open>a * b\<close> and \<open>a / b\<close> of Python 2: two ints give an int, and \<open>/\<close> on two
  ints is floor division; otherwise both operands are converted to float.
\<close>

definition py_add :: "rounding \<Rightarrow> num \<Rightarrow> num \<Rightarrow> num" where
  "py_add rnd a b =
     (case (a, b) of
        (PyInt i, PyInt j) \<Rightarrow> PyInt (i + j)
      | _ \<Rightarrow> PyFloat (rnd (to_float rnd a + to_float rnd b)))"

definition py_mul :: "rounding \<Rightarrow> num \<Rightarrow> num \<Rightarrow> num" where
  "py_mul rnd a b =
     (case (a, b) of
        (PyInt i, PyInt j) \<Rightarrow> PyInt (i * j)
      | _ \<Rightarrow> PyFloat (rnd (to_float rnd a * to_float rnd b)))"

definition py_div :: "rounding \<Rightarrow> num \<Rightarrow> num \<Rightarrow> error + num" where
  "py_div rnd a b =
     (case (a, b) of
        (PyInt i, PyInt j) \<Rightarrow> if j = 0 then Inl ZeroDivisionError else Inr (PyInt (i div j))
      | _ \<Rightarrow>
          if to_float rnd b = 0 then Inl ZeroDivisionError
          else Inr (PyFloat (rnd (to_float rnd a / to_float rnd b))))"

text \<open>\<open>sum(xs)\<close>: from the int \<open>0\<close>, adding from the left.\<close>

definition py_sum :: "rounding \<Rightarrow> num list \<Rightarrow> num" where
  "py_sum rnd xs = fold (\<lambda>x acc. py_add rnd acc x) xs (PyInt 0)"

subsection \<open>Vectors, dictionaries and the inputs of the constructor\<close>

record bayes =
  weights :: "num list"
  labels :: "string list"

text \<open>
  A \<open>collections.defaultdict\<close> whose factory returns a fixed value: the items in
  insertion order, and the value a missing key reads as.
\<close>

record ('k, 'v) defaultdict =
  default_factory :: 'v
  items :: "('k \<times> 'v) list"

definition dd_getitem :: "('k, 'v) defaultdict \<Rightarrow> 'k \<Rightarrow> 'v" where
  "dd_getitem d k = (case map_of (items d) k of Some v \<Rightarrow> v | None \<Rightarrow> default_factory d)"


text \<open>
  The inputs the constructor and \<open>_cast\<close> accept: a plain sequence of odds (a list, a
  tuple or a generator), a dictionary from label to odds (an association list, read
  by its first match), a \<open>defaultdict\<close> from label to odds, or another \<open>Bayes\<close>
  object. The constructor's remaining input form, a list of (label, odds) tuples, is
  recognised only when no labels are passed; no operation below builds one.
\<close>

datatype odds =
    Seq "num list"
  | Dict "(string \<times> num) list"
  | DefaultDict "(string, num) defaultdict"
  | Obj bayes

subsection \<open>Python helpers\<close>

text \<open>\<open>str(n)\<close> for a non-negative integer.\<close>

fun str :: "nat \<Rightarrow> string" where
  "str n = (if n < 10 then [char_of (48 + n)] else str (n div 10) @ [char_of (48 + n mod 10)])"

declare str.simps [simp del]

text \<open>\<open>labels or default\<close>: \<open>None\<close> and the empty list are both false.\<close>

definition py_or :: "string list option \<Rightarrow> string list \<Rightarrow> string list" where
  "py_or lbls dflt = (case lbls of None \<Rightarrow> dflt | Some ls \<Rightarrow> if ls = [] then dflt else ls)"

text \<open>
  A list comprehension or generator whose element expression can raise: the first
  exception ends it.
\<close>

fun comprehension :: "('a \<Rightarrow> error + 'b) \<Rightarrow> 'a list \<Rightarrow> error + 'b list" where
  "comprehension f [] = Inr []"
| "comprehension f (x # xs) =
     (case f x of Inl e \<Rightarrow> Inl e
      | Inr y \<Rightarrow> (case comprehension f xs of Inl e \<Rightarrow> Inl e | Inr ys \<Rightarrow> Inr (y # ys)))"

definition dict_getitem :: "(string \<times> num) list \<Rightarrow> string \<Rightarrow> error + num" where
  "dict_getitem d k = (case map_of d k of None \<Rightarrow> Inl KeyError | Some v \<Rightarrow> Inr v)"

definition sorted_keys :: "(string \<times> num) list \<Rightarrow> string list" where
  "sorted_keys d = sort (remdups (map fst d))"

text \<open>\<open>max(xs)\<close>: the first of the greatest elements, \<open>ValueError\<close> on the empty list.\<close>

fun py_max :: "num list \<Rightarrow> error + num" where
  "py_max [] = Inl ValueError"
| "py_max (x # xs) = Inr (fold (\<lambda>y m. if val y > val m then y else m) xs x)"

text \<open>\<open>xs.index(x)\<close>: the first position holding \<open>x\<close>, \<open>ValueError\<close> when there is none.\<close>

fun index :: "num list \<Rightarrow> num \<Rightarrow> error + nat" where
  "index [] x = Inl ValueError"
| "index (y # ys) x =
     (if val y = val x then Inr 0
      else (case index ys x of Inl e \<Rightarrow> Inl e | Inr i \<Rightarrow> Inr (Suc i)))"

text \<open>\<open>xs[i]\<close> at a non-negative position.\<close>

definition getitem :: "'a list \<Rightarrow> nat \<Rightarrow> error + 'a" where
  "getitem xs i = (if i < length xs then Inr (xs ! i) else Inl IndexError)"

section \<open>The class \<open>Bayes\<close>\<close>

text \<open>
  The end of \<open>__init__\<close>: the list is filled with \<open>value\<close> and the labels default to
  the stringified positions (\<open>map(str, range(len(self)))\<close>, a list in Python 2).
\<close>

definition list_init :: "num list \<Rightarrow> string list option \<Rightarrow> bayes" where
  "list_init xs lbls = \<lparr>weights = xs, labels = py_or lbls (map str [0..<length xs])\<rparr>"

text \<open>
  \<open>Bayes.__init__(value, labels)\<close>. With \<open>value = None\<close> the call
  \<open>list.__init__(self, None)\<close> raises \<open>TypeError\<close>. No branch compares the number of
  labels with the number of odds.
\<close>

definition Bayes_init :: "odds option \<Rightarrow> string list option \<Rightarrow> error + bayes" where
  "Bayes_init arg lbls =
     (case arg of
        None \<Rightarrow> Inl TypeError
      | Some (Dict d) \<Rightarrow>
          (let ls = py_or lbls (sorted_keys d)
           in bind (comprehension (dict_getitem d) ls) (\<lambda>xs. Inr (list_init xs (Some ls))))
      | Some (DefaultDict d) \<Rightarrow>
          (let ls = py_or lbls (sorted_keys (items d))
           in Inr (list_init (map (dd_getitem d) ls) (Some ls)))
      | Some (Seq xs) \<Rightarrow> Inr (list_init xs lbls)
      | Some (Obj b) \<Rightarrow> Inr (list_init (weights b) lbls))"

text \<open>\<open>_cast\<close>: a \<open>Bayes\<close> object is returned as it is, anything else is rebuilt under
  the labels of \<open>self\<close>.\<close>

definition cast :: "bayes \<Rightarrow> odds \<Rightarrow> error + bayes" where
  "cast self other =
     (case other of
        Obj b \<Rightarrow> Inr b
      | _ \<Rightarrow> Bayes_init (Some other) (Some (labels self)))"

text \<open>
  \<open>opposite\<close>: \<open>0 in self\<close> compares by value; the zero branch yields the ints \<open>1\<close> and
  \<open>0\<close>; the other branch evaluates \<open>1 / i\<close> with the int \<open>1\<close>, so an int weight is
  floor-divided.
\<close>

definition opposite :: "rounding \<Rightarrow> bayes \<Rightarrow> error + bayes" where
  "opposite rnd self =
     (if 0 \<in> set (map val (weights self))
      then cast self (Seq (map (\<lambda>i. if val i = 0 then PyInt 1 else PyInt 0) (weights self)))
      else bind (comprehension (\<lambda>i. py_div rnd (PyInt 1) i) (weights self))
             (\<lambda>xs. cast self (Seq xs)))"

text \<open>
  \<open>normalized\<close>: \<open>total = float(sum(self))\<close>; the generator \<open>i / total for i in self\<close>
  divides at its first element, so a zero total raises exactly when the vector has an
  element.
\<close>

definition normalized :: "rounding \<Rightarrow> bayes \<Rightarrow> error + bayes" where
  "normalized rnd self =
     (let total = PyFloat (to_float rnd (py_sum rnd (weights self)))
      in bind (comprehension (\<lambda>i. py_div rnd i total) (weights self))
           (\<lambda>xs. cast self (Seq xs)))"

text \<open>\<open>__mul__\<close>: \<open>zip\<close> stops at the shorter of the two lists.\<close>

definition mul :: "rounding \<Rightarrow> bayes \<Rightarrow> odds \<Rightarrow> error + bayes" where
  "mul rnd self other =
     bind (cast self other)
       (\<lambda>other'. cast self
          (Seq (map (\<lambda>(i, j). py_mul rnd i j) (zip (weights self) (weights other')))))"

text \<open>\<open>__div__\<close>.\<close>

definition div_bayes :: "rounding \<Rightarrow> bayes \<Rightarrow> odds \<Rightarrow> error + bayes" where
  "div_bayes rnd self other =
     bind (cast self other)
       (\<lambda>other'. bind (opposite rnd other') (\<lambda>opp. mul rnd self (Obj opp)))"

text \<open>
  \<open>update\<close> of \<^verbatim>\<open>src/bayesian/__init__.py\<close>:
  \<open>self[:] = (self * self._cast(event)).normalized()\<close>. The slice assignment replaces
  the elements of the list and leaves the attribute \<open>labels\<close> alone.
\<close>

definition update :: "rounding \<Rightarrow> bayes \<Rightarrow> odds \<Rightarrow> error + bayes" where
  "update rnd self event =
     bind (cast self event) (\<lambda>event'.
     bind (mul rnd self (Obj event')) (\<lambda>product.
     bind (normalized rnd product) (\<lambda>n. Inr (self\<lparr>weights := weights n\<rparr>))))"

text \<open>\<open>update\<close> of \<^verbatim>\<open>src/bayes.py\<close>: \<open>self[:] = self * self._cast(event)\<close>.\<close>

definition bayes_py_update :: "rounding \<Rightarrow> bayes \<Rightarrow> odds \<Rightarrow> error + bayes" where
  "bayes_py_update rnd self event =
     bind (cast self event) (\<lambda>event'.
     bind (mul rnd self (Obj event')) (\<lambda>product. Inr (self\<lparr>weights := weights product\<rparr>)))"

text \<open>
  \<open>update_from_events\<close>: \<open>events_odds\<close> is a dictionary from event to odds; an event
  that is not a key is skipped.
\<close>

fun update_from_events ::
  "rounding \<Rightarrow> bayes \<Rightarrow> 'e list \<Rightarrow> ('e \<rightharpoonup> odds) \<Rightarrow> error + bayes" where
  "update_from_events rnd self [] events_odds = Inr self"
| "update_from_events rnd self (event # events) events_odds =
     (case events_odds event of
        None \<Rightarrow> update_from_events rnd self events events_odds
      | Some row \<Rightarrow>
          bind (update rnd self row)
            (\<lambda>self'. update_from_events rnd self' events events_odds))"

text \<open>\<open>update_from_tests\<close>: the loop over \<open>zip(tests_results, odds)\<close>.\<close>

fun update_from_tests_loop :: "rounding \<Rightarrow> bayes \<Rightarrow> (bool \<times> odds) list \<Rightarrow> error + bayes" where
  "update_from_tests_loop rnd self [] = Inr self"
| "update_from_tests_loop rnd self ((result, chance) # rest) =
     bind (if result then update rnd self chance
           else bind (cast self chance)
                  (\<lambda>c. bind (opposite rnd c) (\<lambda>opp. update rnd self (Obj opp))))
       (\<lambda>self'. update_from_tests_loop rnd self' rest)"

definition update_from_tests ::
  "rounding \<Rightarrow> bayes \<Rightarrow> bool list \<Rightarrow> odds list \<Rightarrow> error + bayes" where
  "update_from_tests rnd self tests_results odds_rows =
     update_from_tests_loop rnd self (zip tests_results odds_rows)"

text \<open>\<open>most_likely\<close>: \<open>None\<close> is the result \<open>Inr None\<close>, not an error.\<close>

definition most_likely :: "rounding \<Rightarrow> bayes \<Rightarrow> real \<Rightarrow> error + string option" where
  "most_likely rnd self cutoff =
     bind (normalized rnd self) (\<lambda>n.
     bind (py_max (weights n)) (\<lambda>max_value.
       if val max_value > cutoff
       then bind (index (weights n) max_value) (\<lambda>i.
            bind (getitem (labels self) i) (\<lambda>l. Inr (Some l)))
       else Inr None))"

section \<open>The Gaussian model\<close>

text \<open>
  \<open>gaussian_probability\<close>: \<open>math.sqrt\<close> raises \<open>ValueError\<close> on a negative argument.
  The sample, the mean and the variance are read as real numbers; the degenerate branch
  computes nothing, it compares and returns a constant.
\<close>

definition gaussian_probability :: "real \<Rightarrow> real \<times> real \<Rightarrow> error + real" where
  "gaussian_probability sample distribution =
     (case distribution of (mean, variance) \<Rightarrow>
        if variance = 0 then Inr (if sample \<noteq> mean then 0 else 1)
        else if 2 * pi * variance < 0 then Inl ValueError
        else Inr (exp ((sample - mean)\<^sup>2 / (- 2 * variance)) / sqrt (2 * pi * variance)))"

section \<open>The event table\<close>


type_synonym 'e events_odds = "('e, (string, real) defaultdict) defaultdict"




section \<open>Notions used by the statements\<close>

text \<open>
  What the constructor guarantees of the object it builds, and what \<open>opposite\<close>,
  \<open>normalized\<close>, \<open>__mul__\<close> and both \<open>update\<close>s keep: a vector without labels has no
  weights. (The constructor does not compare the two lengths, so nothing stronger holds
  of every constructed object.)
\<close>

definition bayes_inv :: "bayes \<Rightarrow> bool" where
  "bayes_inv v = (labels v = [] \<longrightarrow> weights v = [])"


text \<open>A sequence of \<open>update\<close> calls on one vector, stopping at the first exception.\<close>

fun updates :: "(bayes \<Rightarrow> odds \<Rightarrow> error + bayes) \<Rightarrow> bayes \<Rightarrow> odds list \<Rightarrow> error + bayes" where
  "updates upd self [] = Inr self"
| "updates upd self (event # events) = bind (upd self event) (\<lambda>self'. updates upd self' events)"

text \<open>
  Every product formed along the run of the non-normalizing \<open>update\<close> exists and has a
  positive sum of weights.
\<close>

fun products_positive :: "rounding \<Rightarrow> bayes \<Rightarrow> odds list \<Rightarrow> bool" where
  "products_positive rnd self [] = True"
| "products_positive rnd self (event # events) =
     (case bayes_py_update rnd self event of
        Inl e \<Rightarrow> False
      | Inr self' \<Rightarrow>
          0 < val (py_sum rnd (weights self')) \<and> products_positive rnd self' events)"

section \<open>Auxiliary facts\<close>

lemma bind_Inr [simp]: "bind (Inr x) f = f x"
  by (simp add: bind_def)

lemma bind_Inl [simp]: "bind (Inl e) f = Inl e"
  by (simp add: bind_def)

lemma bind_eq_Inr: "bind m f = Inr y \<longleftrightarrow> (\<exists>x. m = Inr x \<and> f x = Inr y)"
  by (cases m) simp_all

subsection \<open>Exact arithmetic\<close>

lemma to_float_exact [simp]: "to_float exact n = val n"
  by (cases n) (simp_all add: to_float_def exact_def)

lemma val_py_add_exact [simp]: "val (py_add exact a b) = val a + val b"
  by (cases a; cases b) (simp_all add: py_add_def exact_def)

lemma val_py_mul_exact [simp]: "val (py_mul exact a b) = val a * val b"
  by (cases a; cases b) (simp_all add: py_mul_def exact_def)

lemma val_fold_py_add_exact:
  "val (fold (\<lambda>x acc. py_add exact acc x) xs a) = val a + sum_list (map val xs)"
  by (induction xs arbitrary: a) simp_all

lemma val_py_sum_exact [simp]: "val (py_sum exact xs) = sum_list (map val xs)"
  by (simp add: py_sum_def val_fold_py_add_exact)

lemma py_div_exact_float:
  "py_div exact i (PyFloat t)
     = (if t = 0 then Inl ZeroDivisionError else Inr (PyFloat (val i / t)))"
  by (cases i) (simp_all add: py_div_def exact_def)

lemma comprehension_div_exact:
  "comprehension (\<lambda>i. py_div exact i (PyFloat t)) ws
     = (if t = 0 \<and> ws \<noteq> [] then Inl ZeroDivisionError
        else Inr (map (\<lambda>i. PyFloat (val i / t)) ws))"
proof (cases "t = 0")
  case True
  then show ?thesis by (cases ws) (simp_all add: py_div_exact_float)
next
  case False
  then have "comprehension (\<lambda>i. py_div exact i (PyFloat t)) ws
               = Inr (map (\<lambda>i. PyFloat (val i / t)) ws)"
    by (induction ws) (simp_all add: py_div_exact_float)
  with False show ?thesis by simp
qed

subsection \<open>The constructor and \<open>_cast\<close>\<close>

lemma cast_Seq:
  "cast self (Seq xs)
     = Inr \<lparr>weights = xs, labels = py_or (Some (labels self)) (map str [0..<length xs])\<rparr>"
  by (simp add: cast_def Bayes_init_def list_init_def)

lemma cast_Obj: "cast self (Obj b) = Inr b"
  by (simp add: cast_def)

lemma cast_labels_cong: "labels a = labels b \<Longrightarrow> cast a e = cast b e"
  by (simp add: cast_def split: odds.splits)

lemma py_or_nonempty: "ls \<noteq> [] \<Longrightarrow> py_or (Some ls) d = ls"
  by (simp add: py_or_def)

lemma py_or_inv:
  "bayes_inv v \<Longrightarrow> length xs \<le> length (weights v)
     \<Longrightarrow> py_or (Some (labels v)) (map str [0..<length xs]) = labels v"
  by (auto simp: py_or_def bayes_inv_def)

lemma cast_Seq_inv:
  "bayes_inv v \<Longrightarrow> length xs \<le> length (weights v)
     \<Longrightarrow> cast v (Seq xs) = Inr \<lparr>weights = xs, labels = labels v\<rparr>"
  by (simp add: cast_Seq py_or_inv)

lemma comprehension_length: "comprehension f xs = Inr ys \<Longrightarrow> length ys = length xs"
  by (induction xs arbitrary: ys) (auto split: sum.splits)

lemma comprehension_dict:
  "set ls \<subseteq> fst ` set d \<Longrightarrow> \<exists>xs. comprehension (dict_getitem d) ls = Inr xs"
proof (induction ls)
  case Nil
  then show ?case by simp
next
  case (Cons l ls)
  then obtain xs where xs: "comprehension (dict_getitem d) ls = Inr xs" by auto
  from Cons.prems have "l \<in> fst ` set d" by simp
  then obtain x where "map_of d l = Some x"
    by (metis domD dom_map_of_conv_image_fst)
  then have "dict_getitem d l = Inr x" by (simp add: dict_getitem_def)
  with xs show ?case by simp
qed

lemma Bayes_init_inv: "Bayes_init arg lbls = Inr v \<Longrightarrow> bayes_inv v"
proof (cases arg)
  case None
  assume "Bayes_init arg lbls = Inr v"
  with None show ?thesis by (simp add: Bayes_init_def)
next
  case (Some a)
  assume h: "Bayes_init arg lbls = Inr v"
  show ?thesis
  proof (cases a)
    case (Seq xs)
    with Some h show ?thesis
      by (auto simp: Bayes_init_def list_init_def py_or_def bayes_inv_def split: option.splits if_splits)
  next
    case (Dict d)
    with Some h show ?thesis
      by (auto simp: Bayes_init_def list_init_def py_or_def bayes_inv_def Let_def bind_eq_Inr
          dest: comprehension_length split: option.splits if_splits)
  next
    case (DefaultDict d)
    with Some h show ?thesis
      by (auto simp: Bayes_init_def list_init_def py_or_def bayes_inv_def Let_def split: option.splits if_splits)
  next
    case (Obj b)
    with Some h show ?thesis
      by (auto simp: Bayes_init_def list_init_def py_or_def bayes_inv_def split: option.splits if_splits)
  qed
qed

lemma cast_Dict:
  assumes "labels self \<noteq> []" and "set (labels self) \<subseteq> fst ` set d"
  shows "\<exists>r. cast self (Dict d) = Inr r \<and> labels r = labels self"
proof -
  from assms(2) obtain xs where "comprehension (dict_getitem d) (labels self) = Inr xs"
    using comprehension_dict by blast
  with assms(1) show ?thesis
    by (simp add: cast_def Bayes_init_def list_init_def py_or_def)
qed

lemma cast_DefaultDict:
  assumes "labels self \<noteq> []"
  shows "cast self (DefaultDict d)
           = Inr \<lparr>weights = map (dd_getitem d) (labels self), labels = labels self\<rparr>"
  using assms by (simp add: cast_def Bayes_init_def list_init_def py_or_def Let_def)

subsection \<open>\<open>normalized\<close>, \<open>__mul__\<close> and the updates\<close>

lemma normalized_exact:
  "normalized exact self
     = (if sum_list (map val (weights self)) = 0 \<and> weights self \<noteq> []
        then Inl ZeroDivisionError
        else cast self
               (Seq (map (\<lambda>i. PyFloat (val i / sum_list (map val (weights self))))
                       (weights self))))"
  by (simp add: normalized_def comprehension_div_exact)

lemma mul_Obj:
  "\<exists>m. mul rnd self (Obj b) = Inr m
     \<and> weights m = map (\<lambda>(i, j). py_mul rnd i j) (zip (weights self) (weights b))"
  by (simp add: mul_def cast_Obj cast_Seq)

lemma bayes_py_update_Inr:
  "bayes_py_update rnd self e = Inr self' \<longleftrightarrow>
     (\<exists>b. cast self e = Inr b
        \<and> self' = self\<lparr>weights := map (\<lambda>(i, j). py_mul rnd i j) (zip (weights self) (weights b))\<rparr>)"
  by (auto simp: bayes_py_update_def bind_eq_Inr mul_def cast_Obj cast_Seq)

lemma update_labels: "update rnd self event = Inr self' \<Longrightarrow> labels self' = labels self"
  by (auto simp: update_def bind_eq_Inr)

lemma update_from_events_labels:
  "update_from_events rnd self events events_odds = Inr self' \<Longrightarrow> labels self' = labels self"
proof (induction events arbitrary: self)
  case Nil
  then show ?case by simp
next
  case (Cons event events)
  show ?case
  proof (cases "events_odds event")
    case None
    with Cons show ?thesis by simp
  next
    case (Some row)
    with Cons.prems obtain s where s: "update rnd self row = Inr s"
      and rest: "update_from_events rnd s events events_odds = Inr self'"
      by (auto simp: bind_eq_Inr)
    from Cons.IH [OF rest] update_labels [OF s] show ?thesis by simp
  qed
qed

lemma update_from_tests_loop_labels:
  "update_from_tests_loop rnd self ps = Inr self' \<Longrightarrow> labels self' = labels self"
proof (induction rnd self ps rule: update_from_tests_loop.induct)
  case (1 rnd self)
  then show ?case by simp
next
  case (2 rnd self result chance rest)
  from "2.prems" obtain s where
    s: "(if result then update rnd self chance
         else bind (cast self chance)
                (\<lambda>c. bind (opposite rnd c) (\<lambda>opp. update rnd self (Obj opp)))) = Inr s"
    and rest: "update_from_tests_loop rnd s rest = Inr self'"
    by (auto simp: bind_eq_Inr)
  from s have "labels s = labels self"
    by (auto simp: bind_eq_Inr dest: update_labels split: if_splits)
  with "2.IH" [OF rest] show ?case by simp
qed

subsection \<open>\<open>max\<close> and \<open>index\<close>\<close>

lemma fold_max_val:
  "val (fold (\<lambda>y m. if val y > val m then y else m) xs x) = Max (set (map val (x # xs)))
   \<and> fold (\<lambda>y m. if val y > val m then y else m) xs x \<in> set (x # xs)"
proof (induction xs arbitrary: x)
  case Nil
  then show ?case by simp
next
  case (Cons y ys)
  let ?x' = "if val y > val x then y else x"
  from Cons.IH [of ?x'] have
    v: "val (fold (\<lambda>y m. if val y > val m then y else m) ys ?x') = Max (set (map val (?x' # ys)))"
    and m: "fold (\<lambda>y m. if val y > val m then y else m) ys ?x' \<in> set (?x' # ys)"
    by blast+
  have "Max (set (map val (?x' # ys))) = Max (set (map val (x # y # ys)))"
  proof (cases "set ys = {}")
    case True
    then show ?thesis by (auto simp: max_def)
  next
    case False
    then have ne: "val ` set ys \<noteq> {}" by simp
    have fin: "finite (val ` set ys)" by simp
    show ?thesis
      using Max_insert [OF fin ne] by (auto simp: max_def)
  qed
  with v m show ?case by auto
qed

lemma py_max_Max:
  "xs \<noteq> [] \<Longrightarrow> \<exists>m. py_max xs = Inr m \<and> val m = Max (set (map val xs)) \<and> m \<in> set xs"
  using fold_max_val by (cases xs) auto

lemma index_first:
  "val x \<in> set (map val xs) \<Longrightarrow>
     \<exists>i. index xs x = Inr i \<and> i < length xs \<and> val (xs ! i) = val x
        \<and> (\<forall>j<i. val (xs ! j) \<noteq> val x)"
proof (induction xs)
  case Nil
  then show ?case by simp
next
  case (Cons y ys)
  show ?case
  proof (cases "val y = val x")
    case True
    then show ?thesis by simp
  next
    case False
    with Cons.prems have "val x \<in> set (map val ys)" by auto
    from Cons.IH [OF this] obtain i where
      i: "index ys x = Inr i" "i < length ys" "val (ys ! i) = val x"
         "\<forall>j<i. val (ys ! j) \<noteq> val x"
      by blast
    have "\<forall>j<Suc i. val ((y # ys) ! j) \<noteq> val x"
      using False i(4) by (auto simp: nth_Cons split: nat.splits)
    with False i show ?thesis by simp
  qed
qed

subsection \<open>\<open>normalized\<close> and \<open>most_likely\<close> under any rounding\<close>

lemma py_div_float:
  "py_div rnd i (PyFloat t)
     = (if t = 0 then Inl ZeroDivisionError else Inr (PyFloat (rnd (to_float rnd i / t))))"
  by (cases i) (simp_all add: py_div_def to_float_def)

lemma comprehension_div_float:
  "t \<noteq> 0 \<Longrightarrow>
     comprehension (\<lambda>i. py_div rnd i (PyFloat t)) ws
       = Inr (map (\<lambda>i. PyFloat (rnd (to_float rnd i / t))) ws)"
  by (induction ws) (simp_all add: py_div_float)

lemma normalized_Inr:
  "to_float rnd (py_sum rnd (weights v)) \<noteq> 0 \<Longrightarrow>
     normalized rnd v
       = cast v (Seq (map (\<lambda>i. PyFloat (rnd (to_float rnd i
                                / to_float rnd (py_sum rnd (weights v))))) (weights v)))"
  by (simp add: normalized_def comprehension_div_float)

lemma normalized_zero_total:
  "weights v \<noteq> [] \<Longrightarrow> to_float rnd (py_sum rnd (weights v)) = 0 \<Longrightarrow>
     normalized rnd v = Inl ZeroDivisionError"
  by (cases "weights v") (simp_all add: normalized_def py_div_float)

lemma most_likely_of_normalized:
  assumes norm: "normalized rnd v = Inr n"
    and ne: "weights n \<noteq> []"
    and len: "length (weights n) \<le> length (labels v)"
  shows "(Max (set (map val (weights n))) \<le> cutoff \<longrightarrow> most_likely rnd v cutoff = Inr None)
       \<and> (cutoff < Max (set (map val (weights n))) \<longrightarrow>
            (\<exists>i < length (weights n).
                most_likely rnd v cutoff = Inr (Some (labels v ! i))
              \<and> val (weights n ! i) = Max (set (map val (weights n)))
              \<and> (\<forall>j < i. val (weights n ! j) < val (weights n ! i))))"
proof -
  define nw where "nw = weights n"
  define M where "M = Max (set (map val nw))"
  from ne have nne: "nw \<noteq> []" by (simp add: nw_def)
  from py_max_Max [OF nne] obtain m where
    mx: "py_max nw = Inr m" and vm: "val m = M" and mem: "m \<in> set nw"
    by (auto simp: M_def)
  have none: "most_likely rnd v cutoff = Inr None" if "M \<le> cutoff"
    using that by (simp add: most_likely_def norm nw_def [symmetric] mx vm)
  have some: "\<exists>i < length nw. most_likely rnd v cutoff = Inr (Some (labels v ! i))
                  \<and> val (nw ! i) = M \<and> (\<forall>j < i. val (nw ! j) < val (nw ! i))"
    if gt: "cutoff < M"
  proof -
    from mem have "val m \<in> set (map val nw)" by simp
    from index_first [OF this] obtain i where
      i: "index nw m = Inr i" "i < length nw" "val (nw ! i) = val m"
         "\<forall>j<i. val (nw ! j) \<noteq> val m"
      by blast
    have "i < length (labels v)" using i(2) len by (simp add: nw_def)
    then have ml: "most_likely rnd v cutoff = Inr (Some (labels v ! i))"
      using gt by (simp add: most_likely_def norm nw_def [symmetric] mx vm i(1) getitem_def)
    have "val (nw ! j) < val (nw ! i)" if "j < i" for j
    proof -
      from that i(2) have "val (nw ! j) \<in> set (map val nw)" by simp
      then have "val (nw ! j) \<le> M" by (simp add: M_def)
      moreover from that i(4) vm have "val (nw ! j) \<noteq> M" by simp
      ultimately show ?thesis using i(3) vm by simp
    qed
    with ml i(2,3) vm show ?thesis by blast
  qed
  from none some show ?thesis by (simp add: nw_def M_def)
qed

subsection \<open>\<open>opposite\<close> on float odds, over exact arithmetic\<close>

lemma comprehension_recip_exact:
  "0 \<notin> set xs \<Longrightarrow>
     comprehension (\<lambda>i. py_div exact (PyInt 1) i) (map PyFloat xs)
       = Inr (map (\<lambda>x. PyFloat (1 / x)) xs)"
  by (induction xs) (simp_all add: py_div_def to_float_def exact_def)

lemma opposite_float_weights:
  assumes "bayes_inv v" and "weights v = map PyFloat xs"
  shows "opposite exact v
           = Inr \<lparr>weights = (if 0 \<in> set xs
                              then map (\<lambda>x. if x = 0 then PyInt 1 else PyInt 0) xs
                              else map (\<lambda>x. PyFloat (1 / x)) xs),
                  labels = labels v\<rparr>"
proof -
  have z: "map val (map PyFloat xs) = xs" by (induction xs) simp_all
  show ?thesis
    using assms(1)
    by (simp add: opposite_def assms(2) z comprehension_recip_exact cast_Seq_inv o_def)
qed

lemma opposite_twice_float_weights:
  assumes "bayes_inv v" and "weights v = map PyFloat xs" and "0 \<notin> set xs"
  shows "bind (opposite exact v) (opposite exact) = Inr v"
proof -
  define r where "r = \<lparr>weights = map PyFloat (map (\<lambda>x. 1 / x) xs), labels = labels v\<rparr>"
  from assms have ov: "opposite exact v = Inr r"
    by (simp add: opposite_float_weights r_def o_def)
  have inv: "bayes_inv r"
    using assms(1,2) by (simp add: bayes_inv_def r_def)
  from assms(3) have nz: "0 \<notin> set (map (\<lambda>x. 1 / x) xs)"
    by auto
  have wr: "weights r = map PyFloat (map (\<lambda>x. 1 / x) xs)"
    by (simp add: r_def)
  from opposite_float_weights [OF inv wr] nz
  have "opposite exact r
          = Inr \<lparr>weights = map (\<lambda>x. PyFloat (1 / x)) (map (\<lambda>x. 1 / x) xs), labels = labels r\<rparr>"
    by (simp del: map_map)
  moreover have "map (\<lambda>x. PyFloat (1 / x)) (map (\<lambda>x. 1 / x) xs) = weights v"
    by (simp add: assms(2) o_def)
  moreover have "labels r = labels v" by (simp add: r_def)
  ultimately have "opposite exact r = Inr v" by simp
  with ov show ?thesis by simp
qed

subsection \<open>The event table\<close>






subsection \<open>The two \<open>update\<close>s over exact arithmetic\<close>

lemma val_products:
  "map val (map (\<lambda>(i, j). py_mul exact i j) (zip xs ys))
     = map (\<lambda>(x, y). x * y) (zip (map val xs) (map val ys))"
  by (induction xs ys rule: list_induct2') simp_all

lemma scaled_products:
  "map (\<lambda>(i, j). i * j) (zip (map ((*) c) xs) ys)
     = map ((*) (c::real)) (map (\<lambda>(i, j). i * j) (zip xs ys))"
  by (induction xs ys rule: list_induct2') (simp_all add: mult.assoc)

lemma map_mult_one: "map ((*) (1::real)) xs = xs"
  by (induction xs) simp_all

lemma sum_list_scaled: "sum_list (map ((*) (c::real)) xs) = c * sum_list xs"
  by (induction xs) (simp_all add: distrib_left)

lemma float_quotients:
  "map (\<lambda>i. PyFloat (val i / s)) xs = map (\<lambda>x. PyFloat (x / s)) (map val xs)"
  by simp

lemma quotients_scaled:
  assumes "c \<noteq> 0"
  shows "map (\<lambda>x. PyFloat (x / (c * s))) (map ((*) c) xs) = map (\<lambda>x. PyFloat (x / s)) xs"
  using assms by simp

lemma update_Inr:
  assumes "cast self e = Inr b"
    and "sum_list (map val (map (\<lambda>(i, j). py_mul exact i j) (zip (weights self) (weights b)))) \<noteq> 0"
  shows "update exact self e
           = Inr (self\<lparr>weights :=
                map (\<lambda>i. PyFloat (val i
                       / sum_list (map val (map (\<lambda>(i, j). py_mul exact i j)
                                              (zip (weights self) (weights b))))))
                  (map (\<lambda>(i, j). py_mul exact i j) (zip (weights self) (weights b)))\<rparr>)"
  using assms by (simp add: update_def mul_def cast_Obj cast_Seq normalized_exact)

lemma update_step:
  assumes lab: "labels n = labels r"
    and c: "0 < c"
    and w: "map val (weights n) = map ((*) c) (map val (weights r))"
    and raw: "bayes_py_update exact r e = Inr r'"
    and pos: "0 < sum_list (map val (weights r'))"
  shows "\<exists>n'. update exact n e = Inr n' \<and> labels n' = labels r'
            \<and> weights n'
                = map (\<lambda>i. PyFloat (val i / sum_list (map val (weights r')))) (weights r')"
proof -
  from raw obtain b where b: "cast r e = Inr b"
    and r': "r' = r\<lparr>weights := map (\<lambda>(i, j). py_mul exact i j) (zip (weights r) (weights b))\<rparr>"
    by (auto simp: bayes_py_update_Inr)
  define P where "P = map (\<lambda>(i, j). py_mul exact i j) (zip (weights r) (weights b))"
  define Q where "Q = map (\<lambda>(i, j). py_mul exact i j) (zip (weights n) (weights b))"
  have wr': "weights r' = P" and lr': "labels r' = labels r"
    by (simp_all add: r' P_def)
  from pos have S: "sum_list (map val P) \<noteq> 0" by (simp add: wr')
  have nb: "cast n e = Inr b"
    using b cast_labels_cong [OF lab, of e] by simp
  have VQ: "map val Q = map ((*) c) (map val P)"
    by (simp only: Q_def P_def val_products w scaled_products)
  have SQ: "sum_list (map val Q) = c * sum_list (map val P)"
    by (simp only: VQ sum_list_scaled)
  from c S have "sum_list (map val Q) \<noteq> 0"
    by (simp add: SQ)
  from update_Inr [OF nb this [unfolded Q_def]]
  have "update exact n e
          = Inr (n\<lparr>weights := map (\<lambda>i. PyFloat (val i / sum_list (map val Q))) Q\<rparr>)"
    by (simp only: Q_def)
  moreover have "map (\<lambda>i. PyFloat (val i / sum_list (map val Q))) Q
      = map (\<lambda>i. PyFloat (val i / sum_list (map val P))) P"
  proof -
    have "map (\<lambda>i. PyFloat (val i / sum_list (map val Q))) Q
            = map (\<lambda>x. PyFloat (x / (c * sum_list (map val P)))) (map ((*) c) (map val P))"
      by (simp only: float_quotients [of _ Q] VQ sum_list_scaled)
    also have "\<dots> = map (\<lambda>x. PyFloat (x / sum_list (map val P))) (map val P)"
      using c by (intro quotients_scaled) simp
    also have "\<dots> = map (\<lambda>i. PyFloat (val i / sum_list (map val P))) P"
      by (simp only: float_quotients [of _ P])
    finally show ?thesis .
  qed
  ultimately have
    "update exact n e = Inr (n\<lparr>weights := map (\<lambda>i. PyFloat (val i / sum_list (map val P))) P\<rparr>)"
    by simp
  then show ?thesis
    by (simp add: wr' lr' lab)
qed

lemma quotients_val:
  "map val (map (\<lambda>i. PyFloat (val i / s)) xs) = map ((*) (1 / s)) (map val xs)"
  by simp

lemma updates_related:
  assumes "products_positive exact r es"
    and "labels n = labels r"
    and "0 < c"
    and "map val (weights n) = map ((*) c) (map val (weights r))"
  shows "\<exists>r' n' c'. updates (bayes_py_update exact) r es = Inr r'
            \<and> updates (update exact) n es = Inr n'
            \<and> labels n' = labels r' \<and> 0 < c'
            \<and> map val (weights n') = map ((*) c') (map val (weights r'))
            \<and> (es \<noteq> [] \<longrightarrow> 0 < sum_list (map val (weights r'))
                  \<and> weights n' = map (\<lambda>i. PyFloat (val i / sum_list (map val (weights r'))))
                                    (weights r'))"
  using assms
proof (induction es arbitrary: r n c)
  case Nil
  then show ?case by auto
next
  case (Cons e es)
  from Cons.prems(1) obtain r1 where
    raw: "bayes_py_update exact r e = Inr r1" and pos: "0 < sum_list (map val (weights r1))"
    and rest: "products_positive exact r1 es"
    by (auto split: sum.splits)
  from update_step [OF Cons.prems(2,3,4) raw pos] obtain n1 where
    n1: "update exact n e = Inr n1" "labels n1 = labels r1"
        "weights n1 = map (\<lambda>i. PyFloat (val i / sum_list (map val (weights r1)))) (weights r1)"
    by blast
  from pos have c1: "0 < 1 / sum_list (map val (weights r1))" by simp
  have v1: "map val (weights n1)
              = map ((*) (1 / sum_list (map val (weights r1)))) (map val (weights r1))"
    by (simp only: n1(3) quotients_val)
  from Cons.IH [OF rest n1(2) c1 v1] obtain r' n' c' where
    fin: "updates (bayes_py_update exact) r1 es = Inr r'"
         "updates (update exact) n1 es = Inr n'"
         "labels n' = labels r'" "0 < c'"
         "map val (weights n') = map ((*) c') (map val (weights r'))"
         "es \<noteq> [] \<longrightarrow> 0 < sum_list (map val (weights r'))
                  \<and> weights n' = map (\<lambda>i. PyFloat (val i / sum_list (map val (weights r'))))
                                    (weights r')"
    by blast
  show ?case
  proof (cases "es = []")
    case True
    have "updates (bayes_py_update exact) r (e # es) = Inr r1
        \<and> updates (update exact) n (e # es) = Inr n1
        \<and> labels n1 = labels r1 \<and> 0 < 1 / sum_list (map val (weights r1))
        \<and> map val (weights n1)
            = map ((*) (1 / sum_list (map val (weights r1)))) (map val (weights r1))
        \<and> (e # es \<noteq> [] \<longrightarrow> 0 < sum_list (map val (weights r1))
              \<and> weights n1 = map (\<lambda>i. PyFloat (val i / sum_list (map val (weights r1))))
                                (weights r1))"
      using True raw n1(1,2) pos c1 v1 n1(3) by simp
    then show ?thesis by blast
  next
    case False
    with fin raw n1 show ?thesis by auto
  qed
qed

lemma normalized_scaled:
  assumes "labels n = labels r" and "0 < c"
    and "map val (weights n) = map ((*) c) (map val (weights r))"
  shows "normalized exact n = normalized exact r"
proof -
  have S: "sum_list (map val (weights n)) = c * sum_list (map val (weights r))"
    by (simp only: assms(3) sum_list_scaled)
  from assms(3) have "length (weights n) = length (weights r)"
    by (metis length_map)
  then have E: "weights n = [] \<longleftrightarrow> weights r = []" by auto
  have Q: "map (\<lambda>i. PyFloat (val i / sum_list (map val (weights n)))) (weights n)
         = map (\<lambda>i. PyFloat (val i / sum_list (map val (weights r)))) (weights r)"
  proof -
    have "map (\<lambda>i. PyFloat (val i / sum_list (map val (weights n)))) (weights n)
        = map (\<lambda>x. PyFloat (x / (c * sum_list (map val (weights r)))))
            (map ((*) c) (map val (weights r)))"
      by (simp only: float_quotients [of _ "weights n"] assms(3) sum_list_scaled)
    also have "\<dots> = map (\<lambda>x. PyFloat (x / sum_list (map val (weights r)))) (map val (weights r))"
      using assms(2) by (intro quotients_scaled) simp
    also have "\<dots> = map (\<lambda>i. PyFloat (val i / sum_list (map val (weights r)))) (weights r)"
      by (simp only: float_quotients [of _ "weights r"])
    finally show ?thesis .
  qed
  have Z: "sum_list (map val (weights n)) = 0 \<longleftrightarrow> sum_list (map val (weights r)) = 0"
    using assms(2) by (simp add: S)
  show ?thesis
    by (simp only: normalized_exact Q Z E cast_labels_cong [OF assms(1)])
qed

lemma most_likely_scaled:
  assumes "labels n = labels r" and "normalized rnd n = normalized rnd r"
  shows "most_likely rnd n cutoff = most_likely rnd r cutoff"
  by (simp only: most_likely_def assms)

subsection \<open>The constructor's guarantee is kept by every operation\<close>

lemma cast_inv:
  "cast self other = Inr r \<Longrightarrow> (\<And>b. other = Obj b \<Longrightarrow> bayes_inv b) \<Longrightarrow> bayes_inv r"
  by (cases other) (auto simp: cast_def dest: Bayes_init_inv)

lemma opposite_inv: "opposite rnd v = Inr r \<Longrightarrow> bayes_inv r"
  by (auto simp: opposite_def bind_eq_Inr dest: cast_inv split: if_splits)

lemma normalized_inv: "normalized rnd v = Inr r \<Longrightarrow> bayes_inv r"
  by (auto simp: normalized_def Let_def bind_eq_Inr dest: cast_inv split: if_splits)

lemma mul_inv: "mul rnd self other = Inr r \<Longrightarrow> bayes_inv r"
  by (auto simp: mul_def bind_eq_Inr dest: cast_inv)

lemma bayes_py_update_inv:
  assumes "bayes_inv self" and "bayes_py_update rnd self event = Inr self'"
  shows "bayes_inv self'"
  using assms by (auto simp: bayes_py_update_Inr bayes_inv_def)

lemma update_inv:
  assumes "bayes_inv self" and "update rnd self event = Inr self'"
  shows "bayes_inv self'"
proof -
  from assms(2) obtain b p n where "cast self event = Inr b" and p: "mul rnd self (Obj b) = Inr p"
    and n: "normalized rnd p = Inr n" and s: "self' = self\<lparr>weights := weights n\<rparr>"
    by (auto simp: update_def bind_eq_Inr)
  from mul_Obj [of rnd self b] p
  have wp: "weights p = map (\<lambda>(i, j). py_mul rnd i j) (zip (weights self) (weights b))"
    by auto
  have "weights n = []" if "labels self = []"
  proof -
    from that assms(1) have "weights p = []" by (simp add: wp bayes_inv_def)
    with n show ?thesis by (auto simp: normalized_def cast_Seq)
  qed
  with s show ?thesis by (simp add: bayes_inv_def)
qed

subsection \<open>Evaluating \<open>double\<close>\<close>

text \<open>
  Within one binade the rounding is \<open>rne\<close> on the scaled number, so \<open>double\<close> of a
  numeral is computed by naming its binade.
\<close>

lemma binade_from_eq:
  assumes "- 1022 \<le> k" and "k \<le> e" and "2 powi k \<le> x" and "x < 2 powi (k + 1)"
  shows "binade_from e x = k"
  using assms(2)
proof (induction "nat (e - k)" arbitrary: e)
  case 0
  then have "e = k" by simp
  with assms(3) show ?case by (simp add: binade_from.simps)
next
  case (Suc d)
  then have lt: "k + 1 \<le> e" and d: "d = nat (e - 1 - k)" and le: "k \<le> e - 1"
    by simp_all
  have "(2::real) powi (k + 1) \<le> 2 powi e"
    using lt by (intro power_int_increasing) simp_all
  with assms(4) have "\<not> 2 powi e \<le> x" by simp
  moreover from lt assms(1) have "\<not> e \<le> - 1022" by simp
  ultimately have "binade_from e x = binade_from (e - 1) x"
    by (subst binade_from.simps) simp
  with Suc.hyps(1) [OF d le] show ?case by simp
qed

lemma double_binade:
  assumes "2 powi k \<le> \<bar>x\<bar>" and "\<bar>x\<bar> < 2 powi (k + 1)" and "- 1022 \<le> k" and "k \<le> 1023"
  shows "double x = of_int (rne (x / 2 powi (k - 52))) * 2 powi (k - 52)"
proof -
  have "binade \<bar>x\<bar> = k"
    unfolding binade_def using assms(3,4,1,2) by (rule binade_from_eq)
  moreover have "(0::real) < 2 powi k" by (rule zero_less_power_int) simp
  then have "0 < \<bar>x\<bar>" using assms(1) by (rule less_le_trans)
  then have "x \<noteq> 0" by simp
  ultimately show ?thesis by (simp add: double_def Let_def)
qed

lemma double_zero: "double 0 = 0"
  by (simp add: double_def)

lemmas double_eval =
  double_zero rne_def Let_def
  double_binade [of "- 5"] double_binade [of "- 4"] double_binade [of "- 3"]
  double_binade [of "- 2"] double_binade [of "- 1"] double_binade [of 0]
  double_binade [of 1] double_binade [of 2] double_binade [of 3]

subsection \<open>The two \<open>update\<close>s on one input, in doubles\<close>

text \<open>
  The prior \<open>[0.5, 0.5]\<close> and the rows \<open>[0.3, 0.5]\<close> and \<open>[0.5, 0.3]\<close>; a float
  literal is the double nearest to it.
\<close>

lemma float_literals: "double (3 / 10) = 5404319552844595 / 18014398509481984 \<and> double (1 / 2) = 1 / 2"
  by (simp add: double_eval)

lemma bayes_py_run:
  "updates (bayes_py_update double)
       \<lparr>weights = [PyFloat (double (1 / 2)), PyFloat (double (1 / 2))], labels = [''a'', ''b'']\<rparr>
       [Seq [PyFloat (double (3 / 10)), PyFloat (double (1 / 2))],
        Seq [PyFloat (double (1 / 2)), PyFloat (double (3 / 10))]]
     = Inr \<lparr>weights = [PyFloat (5404319552844595 / 72057594037927936),
                        PyFloat (5404319552844595 / 72057594037927936)],
            labels = [''a'', ''b'']\<rparr>"
  by (simp add: bayes_py_update_def mul_def cast_def Bayes_init_def list_init_def py_or_def
      py_mul_def to_float_def double_eval)

lemma bayes_py_run_positive:
  "products_positive double
       \<lparr>weights = [PyFloat (double (1 / 2)), PyFloat (double (1 / 2))], labels = [''a'', ''b'']\<rparr>
       [Seq [PyFloat (double (3 / 10)), PyFloat (double (1 / 2))],
        Seq [PyFloat (double (1 / 2)), PyFloat (double (3 / 10))]]"
  by (simp add: bayes_py_update_def mul_def cast_def Bayes_init_def list_init_def py_or_def
      py_mul_def py_sum_def py_add_def to_float_def double_eval)

lemma bayes_py_run_normalized:
  "normalized double \<lparr>weights = [PyFloat (5404319552844595 / 72057594037927936),
                        PyFloat (5404319552844595 / 72057594037927936)],
            labels = [''a'', ''b'']\<rparr>
   = Inr \<lparr>weights = [PyFloat (1 / 2), PyFloat (1 / 2)], labels = [''a'', ''b'']\<rparr>"
  by (simp add: normalized_def cast_def Bayes_init_def list_init_def py_or_def
      py_div_def py_sum_def py_add_def to_float_def double_eval)

lemma bayesian_run:
  "updates (update double)
       \<lparr>weights = [PyFloat (double (1 / 2)), PyFloat (double (1 / 2))], labels = [''a'', ''b'']\<rparr>
       [Seq [PyFloat (double (3 / 10)), PyFloat (double (1 / 2))],
        Seq [PyFloat (double (1 / 2)), PyFloat (double (3 / 10))]]
     = Inr \<lparr>weights = [PyFloat (9007199254740991 / 18014398509481984), PyFloat (1 / 2)],
            labels = [''a'', ''b'']\<rparr>"
  by (simp add: update_def normalized_def mul_def cast_def Bayes_init_def list_init_def py_or_def
      py_mul_def py_div_def py_sum_def py_add_def to_float_def double_eval)

lemma bayes_py_run_most_likely:
  "most_likely double \<lparr>weights = [PyFloat (5404319552844595 / 72057594037927936),
                        PyFloat (5404319552844595 / 72057594037927936)],
            labels = [''a'', ''b'']\<rparr> 0 = Inr (Some ''a'')"
  by (simp add: most_likely_def bayes_py_run_normalized getitem_def)

lemma bayesian_run_most_likely:
  "most_likely double \<lparr>weights = [PyFloat (9007199254740991 / 18014398509481984), PyFloat (1 / 2)],
            labels = [''a'', ''b'']\<rparr> 0 = Inr (Some ''b'')"
  by (simp add: most_likely_def getitem_def normalized_def cast_def Bayes_init_def list_init_def py_or_def
      py_div_def py_sum_def py_add_def to_float_def double_eval)

section \<open>Results\<close>

text \<open>
  C1. On integer odds \<open>opposite\<close> does not return the reciprocals. The expression
  \<open>1 / i\<close> has the int \<open>1\<close> on its left, so with an int weight Python 2 floor-divides:
  for \<^verbatim>\<open>Bayes({'genuine': 90, 'spam': 10})\<close>, the odds of the spam example of
  \<^verbatim>\<open>src/bayes.py\<close>, \<open>opposite\<close> returns the weights \<open>[0, 0]\<close>, where the reciprocals
  are \<open>1/90\<close> and \<open>1/10\<close>. (\<open>normalized\<close> converts with \<open>float(sum(self))\<close> before it
  divides. On float odds \<open>opposite\<close> divides as floats; \<open>opposite_float_weights\<close>
  states the reciprocals for them, over exact arithmetic.)
\<close>

theorem opposite_floor_divides_ints:
  "bind (Bayes_init (Some (Dict [(''genuine'', PyInt 90), (''spam'', PyInt 10)])) None)
     (opposite double)
     = Inr \<lparr>weights = [PyInt 0, PyInt 0], labels = [''genuine'', ''spam'']\<rparr>"
  by (simp add: Bayes_init_def list_init_def py_or_def sorted_keys_def dict_getitem_def
      opposite_def py_div_def cast_def)

text \<open>
  C2. For a vector that has a weight, whose labels cover its weights and whose weight
  sum, as \<open>normalized\<close> computes it (\<open>float(sum(self))\<close>), is positive:
  \<open>most_likely cutoff\<close> returns \<open>None\<close> when the greatest normalized weight is at most
  \<open>cutoff\<close>; otherwise it returns the label at the first position that holds the
  greatest normalized weight (every earlier position holds a strictly smaller one). The
  normalized weights are those of the vector \<open>normalized\<close> returns. This holds under
  every rounding of the float operations; with \<open>exact\<close> for the rounding, the computed
  sum is the sum of the weights as real numbers.
\<close>

theorem most_likely_spec:
  assumes "length (weights v) \<le> length (labels v)"
    and "weights v \<noteq> []"
    and "0 < to_float rnd (py_sum rnd (weights v))"
  shows "\<exists>n. normalized rnd v = Inr n
           \<and> (Max (set (map val (weights n))) \<le> cutoff \<longrightarrow>
                most_likely rnd v cutoff = Inr None)
           \<and> (cutoff < Max (set (map val (weights n))) \<longrightarrow>
                (\<exists>i < length (weights n).
                    most_likely rnd v cutoff = Inr (Some (labels v ! i))
                  \<and> val (weights n ! i) = Max (set (map val (weights n)))
                  \<and> (\<forall>j < i. val (weights n ! j) < val (weights n ! i))))"
proof -
  from assms(3) have "to_float rnd (py_sum rnd (weights v)) \<noteq> 0" by simp
  from normalized_Inr [OF this] obtain n where norm: "normalized rnd v = Inr n"
    and wn: "length (weights n) = length (weights v)"
    by (auto simp: cast_Seq)
  from wn assms(2) have nne: "weights n \<noteq> []" by auto
  from wn assms(1) have len: "length (weights n) \<le> length (labels v)" by simp
  from most_likely_of_normalized [OF norm nne len, of cutoff] norm show ?thesis by blast
qed

theorem most_likely_spec_witness:
  "length (weights \<lparr>weights = [PyInt 1, PyInt 3, PyInt 3, PyInt 1],
                    labels = [''a'', ''b'', ''c'', ''d'']\<rparr>)
     \<le> length (labels \<lparr>weights = [PyInt 1, PyInt 3, PyInt 3, PyInt 1],
                        labels = [''a'', ''b'', ''c'', ''d'']\<rparr>)
   \<and> weights \<lparr>weights = [PyInt 1, PyInt 3, PyInt 3, PyInt 1],
               labels = [''a'', ''b'', ''c'', ''d'']\<rparr> \<noteq> []
   \<and> 0 < to_float double
            (py_sum double (weights \<lparr>weights = [PyInt 1, PyInt 3, PyInt 3, PyInt 1],
                                     labels = [''a'', ''b'', ''c'', ''d'']\<rparr>))
   \<and> normalized double \<lparr>weights = [PyInt 1, PyInt 3, PyInt 3, PyInt 1],
                        labels = [''a'', ''b'', ''c'', ''d'']\<rparr>
       = Inr \<lparr>weights = [PyFloat (1 / 8), PyFloat (3 / 8), PyFloat (3 / 8), PyFloat (1 / 8)],
              labels = [''a'', ''b'', ''c'', ''d'']\<rparr>
   \<and> most_likely double \<lparr>weights = [PyInt 1, PyInt 3, PyInt 3, PyInt 1],
                         labels = [''a'', ''b'', ''c'', ''d'']\<rparr> (3 / 8)
       = Inr None
   \<and> most_likely double \<lparr>weights = [PyInt 1, PyInt 3, PyInt 3, PyInt 1],
                         labels = [''a'', ''b'', ''c'', ''d'']\<rparr> (1 / 4)
       = Inr (Some ''b'')"
proof -
  let ?v = "\<lparr>weights = [PyInt 1, PyInt 3, PyInt 3, PyInt 1],
             labels = [''a'', ''b'', ''c'', ''d'']\<rparr>"
  have a: "length (weights ?v) \<le> length (labels ?v)"
    by simp
  have b: "weights ?v \<noteq> []"
    by simp
  have c: "0 < to_float double (py_sum double (weights ?v))"
    by (simp add: py_sum_def py_add_def to_float_def double_eval)
  have n: "normalized double ?v
       = Inr \<lparr>weights = [PyFloat (1 / 8), PyFloat (3 / 8), PyFloat (3 / 8), PyFloat (1 / 8)],
              labels = [''a'', ''b'', ''c'', ''d'']\<rparr>"
    by (simp add: normalized_def cast_Seq py_or_def py_div_def py_sum_def py_add_def
        to_float_def double_eval)
  show ?thesis
    using a b c most_likely_spec [OF a b c, of "3 / 8"]
    by (simp add: most_likely_def n getitem_def)
qed

text \<open>
  C3, as stated, fails: with two test results and one row of odds, \<open>update_from_tests\<close>
  returns normally, having used the first pair only.
\<close>

theorem update_from_tests_truncates_counterexample:
  "length [True, False] \<noteq> length [Seq [PyFloat (3 / 4), PyFloat (1 / 4)]]
   \<and> update_from_tests double \<lparr>weights = [PyFloat (1 / 2), PyFloat (1 / 2)], labels = [''a'', ''b'']\<rparr>
         [True, False] [Seq [PyFloat (3 / 4), PyFloat (1 / 4)]]
       = Inr \<lparr>weights = [PyFloat (3 / 4), PyFloat (1 / 4)], labels = [''a'', ''b'']\<rparr>"
  by (simp add: update_from_tests_def update_def cast_def mul_def normalized_def
      Bayes_init_def list_init_def py_or_def py_mul_def py_div_def py_sum_def py_add_def
      to_float_def double_eval)

text \<open>
  C3, amended. \<open>update_from_tests\<close> pairs the two sequences position by position up to
  the length of the shorter one: the call behaves as the call on both sequences cut to
  that length, and the surplus of the longer one is never read.
\<close>

theorem update_from_tests_shorter:
  "update_from_tests rnd self tests_results odds_rows
     = update_from_tests rnd self
         (take (min (length tests_results) (length odds_rows)) tests_results)
         (take (min (length tests_results) (length odds_rows)) odds_rows)"
proof -
  have "zip (take (min (length tests_results) (length odds_rows)) tests_results)
            (take (min (length tests_results) (length odds_rows)) odds_rows)
          = take (length (zip tests_results odds_rows)) (zip tests_results odds_rows)"
    by (simp only: take_zip length_zip)
  then show ?thesis
    by (simp add: update_from_tests_def)
qed

text \<open>
  C4, as stated, fails: \<open>_cast\<close> returns a \<open>Bayes\<close> argument as it is, with its own
  labels.
\<close>

theorem cast_keeps_other_labels_counterexample:
  "cast \<lparr>weights = [PyFloat 1, PyFloat 2], labels = [''a'', ''b'']\<rparr>
        (Obj \<lparr>weights = [PyFloat 3, PyFloat 4], labels = [''x'', ''y'']\<rparr>)
     = Inr \<lparr>weights = [PyFloat 3, PyFloat 4], labels = [''x'', ''y'']\<rparr>
   \<and> labels \<lparr>weights = [PyFloat 3, PyFloat 4], labels = [''x'', ''y'']\<rparr>
       \<noteq> labels \<lparr>weights = [PyFloat 1, PyFloat 2], labels = [''a'', ''b'']\<rparr>"
  by (simp add: cast_def)

text \<open>
  C4, amended. \<open>_cast\<close> returns a \<open>Bayes\<close> argument unchanged. When \<open>self\<close> has at least
  one label, a plain sequence becomes a vector with the labels of \<open>self\<close>, and so does a
  dictionary that has every label of \<open>self\<close> among its keys, and a \<open>defaultdict\<close>.
\<close>

theorem cast_labels:
  "cast self (Obj b) = Inr b
   \<and> (labels self \<noteq> [] \<longrightarrow>
        cast self (Seq xs) = Inr \<lparr>weights = xs, labels = labels self\<rparr>)
   \<and> (labels self \<noteq> [] \<and> set (labels self) \<subseteq> fst ` set d \<longrightarrow>
        (\<exists>r. cast self (Dict d) = Inr r \<and> labels r = labels self))
   \<and> (labels self \<noteq> [] \<longrightarrow>
        (\<exists>r. cast self (DefaultDict dd) = Inr r \<and> labels r = labels self))"
  by (simp add: cast_Obj cast_Seq py_or_nonempty cast_Dict cast_DefaultDict)

theorem cast_labels_witness:
  "cast \<lparr>weights = [PyFloat 1, PyFloat 2], labels = [''a'', ''b'']\<rparr>
        (Obj \<lparr>weights = [PyFloat 3], labels = [''x'']\<rparr>)
     = Inr \<lparr>weights = [PyFloat 3], labels = [''x'']\<rparr>
   \<and> labels \<lparr>weights = [PyFloat 1, PyFloat 2], labels = [''a'', ''b'']\<rparr> \<noteq> []
   \<and> cast \<lparr>weights = [PyFloat 1, PyFloat 2], labels = [''a'', ''b'']\<rparr> (Seq [PyFloat 5, PyFloat 6])
       = Inr \<lparr>weights = [PyFloat 5, PyFloat 6], labels = [''a'', ''b'']\<rparr>
   \<and> set (labels \<lparr>weights = [PyFloat 1, PyFloat 2], labels = [''a'', ''b'']\<rparr>)
       \<subseteq> fst ` set [(''b'', PyFloat 7), (''a'', PyFloat 8)]
   \<and> cast \<lparr>weights = [PyFloat 1, PyFloat 2], labels = [''a'', ''b'']\<rparr>
         (Dict [(''b'', PyFloat 7), (''a'', PyFloat 8)])
       = Inr \<lparr>weights = [PyFloat 8, PyFloat 7], labels = [''a'', ''b'']\<rparr>
   \<and> cast \<lparr>weights = [PyFloat 1, PyFloat 2], labels = [''a'', ''b'']\<rparr>
         (DefaultDict \<lparr>default_factory = PyFloat 9, items = [(''b'', PyFloat 7)]\<rparr>)
       = Inr \<lparr>weights = [PyFloat 9, PyFloat 7], labels = [''a'', ''b'']\<rparr>"
  using cast_labels [of "\<lparr>weights = [PyFloat 1, PyFloat 2], labels = [''a'', ''b'']\<rparr>"
      "\<lparr>weights = [PyFloat 3], labels = [''x'']\<rparr>" "[PyFloat 5, PyFloat 6]"
      "[(''b'', PyFloat 7), (''a'', PyFloat 8)]"
      "\<lparr>default_factory = PyFloat 9, items = [(''b'', PyFloat 7)]\<rparr>"]
  by (simp add: cast_def Bayes_init_def list_init_def py_or_def dict_getitem_def dd_getitem_def Let_def)



text \<open>
  C6, as stated, fails in the arithmetic the code runs in. Take the prior \<open>[0.5, 0.5]\<close>
  and the rows \<open>[0.3, 0.5]\<close> and \<open>[0.5, 0.3]\<close>. Every product of the run of
  \<^verbatim>\<open>src/bayes.py\<close> has a positive sum; that run ends with two equal weights, which
  \<open>normalized\<close> turns into \<open>[0.5, 0.5]\<close>, and \<open>most_likely\<close> answers \<open>'a'\<close>. The run of
  \<^verbatim>\<open>src/bayesian/__init__.py\<close> rounds at each normalization and ends with
  \<open>[0.49999999999999994, 0.5]\<close>, and \<open>most_likely\<close> answers \<open>'b'\<close>.
\<close>

theorem update_variants_differ_counterexample:
  "products_positive double
       \<lparr>weights = [PyFloat (double (1 / 2)), PyFloat (double (1 / 2))], labels = [''a'', ''b'']\<rparr>
       [Seq [PyFloat (double (3 / 10)), PyFloat (double (1 / 2))],
        Seq [PyFloat (double (1 / 2)), PyFloat (double (3 / 10))]]
   \<and> updates (bayes_py_update double)
       \<lparr>weights = [PyFloat (double (1 / 2)), PyFloat (double (1 / 2))], labels = [''a'', ''b'']\<rparr>
       [Seq [PyFloat (double (3 / 10)), PyFloat (double (1 / 2))],
        Seq [PyFloat (double (1 / 2)), PyFloat (double (3 / 10))]]
     = Inr \<lparr>weights = [PyFloat (5404319552844595 / 72057594037927936),
                        PyFloat (5404319552844595 / 72057594037927936)],
            labels = [''a'', ''b'']\<rparr>
   \<and> normalized double
       \<lparr>weights = [PyFloat (5404319552844595 / 72057594037927936),
                   PyFloat (5404319552844595 / 72057594037927936)],
         labels = [''a'', ''b'']\<rparr>
     = Inr \<lparr>weights = [PyFloat (1 / 2), PyFloat (1 / 2)], labels = [''a'', ''b'']\<rparr>
   \<and> most_likely double
       \<lparr>weights = [PyFloat (5404319552844595 / 72057594037927936),
                   PyFloat (5404319552844595 / 72057594037927936)],
         labels = [''a'', ''b'']\<rparr> 0
     = Inr (Some ''a'')
   \<and> updates (update double)
       \<lparr>weights = [PyFloat (double (1 / 2)), PyFloat (double (1 / 2))], labels = [''a'', ''b'']\<rparr>
       [Seq [PyFloat (double (3 / 10)), PyFloat (double (1 / 2))],
        Seq [PyFloat (double (1 / 2)), PyFloat (double (3 / 10))]]
     = Inr \<lparr>weights = [PyFloat (9007199254740991 / 18014398509481984), PyFloat (1 / 2)],
            labels = [''a'', ''b'']\<rparr>
   \<and> most_likely double
       \<lparr>weights = [PyFloat (9007199254740991 / 18014398509481984), PyFloat (1 / 2)],
         labels = [''a'', ''b'']\<rparr> 0
     = Inr (Some ''b'')"
  by (simp only: bayes_py_run_positive bayes_py_run bayes_py_run_normalized
      bayes_py_run_most_likely bayesian_run bayesian_run_most_likely simp_thms)

text \<open>
  C6, amended. Over exact arithmetic (every number read as the real number it stands
  for, no operation rounded): let every product formed along the run of the
  non-normalizing \<open>update\<close> of \<^verbatim>\<open>src/bayes.py\<close> over a sequence of event rows exist and
  have a positive sum. Then both runs return normally with the same labels, normalizing
  either result gives the same vector, after at least one row the normalized result of
  the non-normalizing run has exactly the weights the normalizing run of
  \<^verbatim>\<open>src/bayesian/__init__.py\<close> ends with, and \<open>most_likely\<close> answers the same on both
  results for every cutoff.
\<close>

theorem update_variants_agree:
  assumes "products_positive exact v events"
  shows "\<exists>r n. updates (bayes_py_update exact) v events = Inr r
           \<and> updates (update exact) v events = Inr n
           \<and> labels r = labels n
           \<and> normalized exact r = normalized exact n
           \<and> (events \<noteq> [] \<longrightarrow> (\<exists>m. normalized exact r = Inr m \<and> weights m = weights n))
           \<and> (\<forall>cutoff. most_likely exact r cutoff = most_likely exact n cutoff)"
proof -
  have "map val (weights v) = map ((*) 1) (map val (weights v))" by (simp only: map_mult_one)
  from updates_related [OF assms refl zero_less_one this] obtain r n c where
    rn: "updates (bayes_py_update exact) v events = Inr r"
        "updates (update exact) v events = Inr n"
        "labels n = labels r" "0 < c"
        "map val (weights n) = map ((*) c) (map val (weights r))"
        "events \<noteq> [] \<longrightarrow> 0 < sum_list (map val (weights r))
            \<and> weights n = map (\<lambda>i. PyFloat (val i / sum_list (map val (weights r)))) (weights r)"
    by blast
  have nn: "normalized exact n = normalized exact r"
    using rn(3,4,5) by (rule normalized_scaled)
  have ml: "most_likely exact r cutoff = most_likely exact n cutoff" for cutoff
    using most_likely_scaled [OF rn(3) nn] by simp
  have "\<exists>m. normalized exact r = Inr m \<and> weights m = weights n" if "events \<noteq> []"
  proof -
    from that rn(6) have S: "0 < sum_list (map val (weights r))"
      and w: "weights n = map (\<lambda>i. PyFloat (val i / sum_list (map val (weights r)))) (weights r)"
      by simp_all
    from S show ?thesis
      by (simp add: normalized_exact cast_Seq w)
  qed
  with rn(1,2,3) nn ml show ?thesis by simp
qed

theorem update_variants_agree_witness:
  "products_positive exact \<lparr>weights = [PyFloat (1 / 2), PyFloat (1 / 2)], labels = [''a'', ''b'']\<rparr>
     [Seq [PyFloat (9 / 10), PyFloat (1 / 10)], Seq [PyFloat (1 / 2), PyFloat (1 / 4)]]
   \<and> updates (bayes_py_update exact)
         \<lparr>weights = [PyFloat (1 / 2), PyFloat (1 / 2)], labels = [''a'', ''b'']\<rparr>
         [Seq [PyFloat (9 / 10), PyFloat (1 / 10)], Seq [PyFloat (1 / 2), PyFloat (1 / 4)]]
       = Inr \<lparr>weights = [PyFloat (9 / 40), PyFloat (1 / 80)], labels = [''a'', ''b'']\<rparr>
   \<and> updates (update exact)
         \<lparr>weights = [PyFloat (1 / 2), PyFloat (1 / 2)], labels = [''a'', ''b'']\<rparr>
         [Seq [PyFloat (9 / 10), PyFloat (1 / 10)], Seq [PyFloat (1 / 2), PyFloat (1 / 4)]]
       = Inr \<lparr>weights = [PyFloat (18 / 19), PyFloat (1 / 19)], labels = [''a'', ''b'']\<rparr>
   \<and> normalized exact \<lparr>weights = [PyFloat (9 / 40), PyFloat (1 / 80)], labels = [''a'', ''b'']\<rparr>
       = Inr \<lparr>weights = [PyFloat (18 / 19), PyFloat (1 / 19)], labels = [''a'', ''b'']\<rparr>"
proof -
  have h: "products_positive exact
     \<lparr>weights = [PyFloat (1 / 2), PyFloat (1 / 2)], labels = [''a'', ''b'']\<rparr>
     [Seq [PyFloat (9 / 10), PyFloat (1 / 10)], Seq [PyFloat (1 / 2), PyFloat (1 / 4)]]"
    by (simp add: bayes_py_update_def mul_def cast_def Bayes_init_def list_init_def py_or_def
        py_mul_def exact_def)
  show ?thesis
    using h update_variants_agree [OF h]
    by (simp add: bayes_py_update_def update_def normalized_exact mul_def cast_def Bayes_init_def
        list_init_def py_or_def py_mul_def exact_def)
qed

text \<open>
  C7. On integer odds \<open>opposite\<close> applied twice does not give the vector back, whatever
  the arithmetic of the floats: for \<^verbatim>\<open>Bayes({'genuine': 90, 'spam': 10})\<close> the first
  call floor-divides to \<open>[0, 0]\<close> and the second, finding a zero, returns \<open>[1, 1]\<close>.
  This is the integer division of C1. (On float odds without a zero the second call
  undoes the first over exact arithmetic: \<open>opposite_twice_float_weights\<close>.)
\<close>

theorem opposite_twice_floor_divides_ints:
  "bind (bind (Bayes_init (Some (Dict [(''genuine'', PyInt 90), (''spam'', PyInt 10)])) None)
           (opposite double))
     (opposite double)
     = Inr \<lparr>weights = [PyInt 1, PyInt 1], labels = [''genuine'', ''spam'']\<rparr>"
  by (simp add: Bayes_init_def list_init_def py_or_def sorted_keys_def dict_getitem_def
      opposite_def py_div_def cast_def)

text \<open>
  C8, as stated, fails: the weights of the empty vector sum to zero, and \<open>normalized\<close>
  returns the empty vector, since the division is never reached.
\<close>

theorem normalized_empty_counterexample:
  "sum_list (map val (weights \<lparr>weights = [], labels = []\<rparr>)) = 0
   \<and> to_float double (py_sum double (weights \<lparr>weights = [], labels = []\<rparr>)) = 0
   \<and> normalized double \<lparr>weights = [], labels = []\<rparr> = Inr \<lparr>weights = [], labels = []\<rparr>"
  by (simp add: normalized_def cast_Seq py_or_def py_sum_def to_float_def double_zero)

text \<open>
  C8, amended. For every vector with at least one weight whose weight sum, as
  \<open>normalized\<close> computes it (\<open>float(sum(self))\<close>), is zero, \<open>normalized\<close> raises
  \<open>ZeroDivisionError\<close>; no vector is returned. This holds under every rounding of the
  float operations; with \<open>exact\<close> for the rounding, the computed sum is the sum of the
  weights as real numbers.
\<close>

theorem normalized_zero_sum:
  assumes "weights v \<noteq> []" and "to_float rnd (py_sum rnd (weights v)) = 0"
  shows "normalized rnd v = Inl ZeroDivisionError"
  using assms by (rule normalized_zero_total)

theorem normalized_zero_sum_witness:
  "weights \<lparr>weights = [PyFloat (1 / 2), PyFloat (- (1 / 2))], labels = [''a'', ''b'']\<rparr> \<noteq> []
   \<and> to_float double
        (py_sum double (weights \<lparr>weights = [PyFloat (1 / 2), PyFloat (- (1 / 2))],
                                 labels = [''a'', ''b'']\<rparr>)) = 0
   \<and> normalized double \<lparr>weights = [PyFloat (1 / 2), PyFloat (- (1 / 2))], labels = [''a'', ''b'']\<rparr>
       = Inl ZeroDivisionError"
proof -
  let ?v = "\<lparr>weights = [PyFloat (1 / 2), PyFloat (- (1 / 2))], labels = [''a'', ''b'']\<rparr>"
  have a: "weights ?v \<noteq> []" by simp
  have b: "to_float double (py_sum double (weights ?v)) = 0"
    by (simp add: py_sum_def py_add_def to_float_def double_eval)
  from a b normalized_zero_sum [OF a b] show ?thesis by simp
qed

text \<open>
  C9. With variance zero the Gaussian likelihood of a sample is 1 when the sample equals
  the mean and 0 otherwise, for every sample and every mean.
\<close>

theorem gaussian_probability_degenerate:
  "gaussian_probability sample (mean, 0) = Inr (if sample = mean then 1 else 0)"
  by (simp add: gaussian_probability_def)

text \<open>
  C10. Whenever \<open>update\<close>, \<open>update_from_events\<close> or \<open>update_from_tests\<close> of
  \<^verbatim>\<open>src/bayesian/__init__.py\<close> returns normally, the labels of the vector after the
  call are the labels before it, under every rounding of the float operations.
\<close>

theorem updates_keep_labels:
  "(update rnd self event = Inr self' \<longrightarrow> labels self' = labels self)
   \<and> (update_from_events rnd self events events_odds = Inr self' \<longrightarrow> labels self' = labels self)
   \<and> (update_from_tests rnd self tests_results odds_rows = Inr self' \<longrightarrow> labels self' = labels self)"
  by (auto simp: update_from_tests_def
      dest: update_labels update_from_events_labels update_from_tests_loop_labels)

theorem updates_keep_labels_witness:
  "update double \<lparr>weights = [PyFloat (1 / 2), PyFloat (1 / 2)], labels = [''a'', ''b'']\<rparr>
       (Seq [PyFloat (3 / 4), PyFloat (1 / 4)])
     = Inr \<lparr>weights = [PyFloat (3 / 4), PyFloat (1 / 4)], labels = [''a'', ''b'']\<rparr>
   \<and> update_from_events double \<lparr>weights = [PyFloat (1 / 2), PyFloat (1 / 2)], labels = [''a'', ''b'']\<rparr>
         [''pos'', ''other''] [''pos'' \<mapsto> Seq [PyFloat (3 / 4), PyFloat (1 / 4)]]
       = Inr \<lparr>weights = [PyFloat (3 / 4), PyFloat (1 / 4)], labels = [''a'', ''b'']\<rparr>
   \<and> update_from_tests double \<lparr>weights = [PyFloat (1 / 2), PyFloat (1 / 2)], labels = [''a'', ''b'']\<rparr>
         [True] [Seq [PyFloat (3 / 4), PyFloat (1 / 4)]]
       = Inr \<lparr>weights = [PyFloat (3 / 4), PyFloat (1 / 4)], labels = [''a'', ''b'']\<rparr>
   \<and> labels \<lparr>weights = [PyFloat (3 / 4), PyFloat (1 / 4)], labels = [''a'', ''b'']\<rparr>
       = labels \<lparr>weights = [PyFloat (1 / 2), PyFloat (1 / 2)], labels = [''a'', ''b'']\<rparr>"
  using updates_keep_labels [of double
      "\<lparr>weights = [PyFloat (1 / 2), PyFloat (1 / 2)], labels = [''a'', ''b'']\<rparr>"
      "Seq [PyFloat (3 / 4), PyFloat (1 / 4)]"
      "\<lparr>weights = [PyFloat (3 / 4), PyFloat (1 / 4)], labels = [''a'', ''b'']\<rparr>"
      "[''pos'', ''other'']" "[''pos'' \<mapsto> Seq [PyFloat (3 / 4), PyFloat (1 / 4)]]"
      "[True]" "[Seq [PyFloat (3 / 4), PyFloat (1 / 4)]]"]
  by (simp add: update_from_tests_def update_def cast_def mul_def normalized_def
      Bayes_init_def list_init_def py_or_def py_mul_def py_div_def py_sum_def py_add_def
      to_float_def double_eval)

end
